theory Spec2Isabelle
  imports Complex_Main "HOL-Library.Sublist" "HOL-Library.AList"
begin

section \<open>Data model\<close>

text \<open>
  A JavaScript string is a sequence of UTF-16 code units. A code unit is a number below
  65536; the model takes any natural number, which leaves no string of the program out.
  \<open>utf16\<close> writes a string of the Latin-1 range, one code unit for each character.
\<close>

type_synonym jsstring = "nat list"

definition utf16 :: "string \<Rightarrow> jsstring" where
  "utf16 s = map of_char s"

text \<open>
  A todo is a JavaScript object. The program reads and writes five fields of it:
  \<^verbatim>\<open>id\<close>, \<^verbatim>\<open>title\<close>, \<^verbatim>\<open>completed\<close>, \<^verbatim>\<open>userId\<close> and \<^verbatim>\<open>isLocal\<close>. Any of them may be
  absent (a remote todo has no \<^verbatim>\<open>isLocal\<close>, an update payload may carry any subset), so
  every field is optional; \<open>None\<close> is an absent field (a field explicitly set to
  \<^verbatim>\<open>undefined\<close> is not distinguished from an absent one). The same record serves for stored
  todos, request bodies, update payloads and server responses, as one object type does
  in the source. The field \<^verbatim>\<open>id\<close> is called \<open>todoId\<close>.
\<close>

record todo =
  todoId :: "int option"
  title :: "jsstring option"
  completed :: "bool option"
  userId :: "int option"
  isLocal :: "bool option"

text \<open>An object literal with no field.\<close>

definition emptyObj :: todo where
  "emptyObj = \<lparr>todoId = None, title = None, completed = None, userId = None, isLocal = None\<rparr>"



text \<open>
  What the source throws: \<^verbatim>\<open>new Error(message)\<close> from the service's \<^verbatim>\<open>catch\<close> blocks,
  and the \<^verbatim>\<open>TypeError\<close> of calling \<^verbatim>\<open>toLowerCase\<close> on a title that is not there.
\<close>

datatype error = Error string | TypeError

section \<open>Strings\<close>

text \<open>
  \<^verbatim>\<open>String.prototype.trim\<close> strips white space and line terminators from both ends. In
  ECMAScript these are the code points U+0009 to U+000D, U+0020, U+00A0, U+1680, U+2000
  to U+200A, U+2028, U+2029, U+202F, U+205F, U+3000 and U+FEFF, each a single code unit.
\<close>

definition isWhiteSpace :: "nat \<Rightarrow> bool" where
  "isWhiteSpace c =
     ((9 \<le> c \<and> c \<le> 13) \<or> c = 32 \<or> c = 160 \<or> c = 5760 \<or> (8192 \<le> c \<and> c \<le> 8202)
      \<or> c = 8232 \<or> c = 8233 \<or> c = 8239 \<or> c = 8287 \<or> c = 12288 \<or> c = 65279)"

definition trim :: "jsstring \<Rightarrow> jsstring" where
  "trim s = rev (dropWhile isWhiteSpace (rev (dropWhile isWhiteSpace s)))"

text \<open>\<^verbatim>\<open>String.prototype.includes\<close>: the test for a contiguous run of code units.\<close>

fun js_includes :: "jsstring \<Rightarrow> jsstring \<Rightarrow> bool" where
  "js_includes [] q = (q = [])"
| "js_includes (c # cs) q = (prefix q (c # cs) \<or> js_includes cs q)"

text \<open>
  \<^verbatim>\<open>String.prototype.toLowerCase\<close> applies the case mapping of the Unicode character
  database, a table of the language runtime that is not part of the program. It is a
  parameter, called \<open>toLowerCase\<close>, of every function of the model that lower-cases a
  string; what is proved holds for every such function, the runtime's among them.
\<close>


section \<open>The list view: search, status filter, pagination\<close>

text \<open>
  \<^verbatim>\<open>Array.prototype.filter\<close> with a callback that may throw: the first exception ends
  the filter.
\<close>

fun filterM :: "('a \<Rightarrow> error + bool) \<Rightarrow> 'a list \<Rightarrow> error + 'a list" where
  "filterM p [] = Inr []"
| "filterM p (x # xs) =
     (case p x of
        Inl e \<Rightarrow> Inl e
      | Inr b \<Rightarrow>
          (case filterM p xs of
             Inl e \<Rightarrow> Inl e
           | Inr ys \<Rightarrow> Inr (if b then x # ys else ys)))"

text \<open>
  The callback \<^verbatim>\<open>todo => todo.title.toLowerCase().includes(query.toLowerCase())\<close>, used
  by the list view and by \<^verbatim>\<open>searchTodos\<close>.
\<close>

definition titleMatches ::
  "(jsstring \<Rightarrow> jsstring) \<Rightarrow> jsstring \<Rightarrow> todo \<Rightarrow> error + bool" where
  "titleMatches toLowerCase query t =
     (case title t of
        None \<Rightarrow> Inl TypeError
      | Some s \<Rightarrow> Inr (js_includes (toLowerCase s) (toLowerCase query)))"

text \<open>Truthiness of \<^verbatim>\<open>todo.completed\<close>: an absent field is falsy.\<close>

definition isCompleted :: "todo \<Rightarrow> bool" where
  "isCompleted t = (completed t = Some True)"

text \<open>
  \<^verbatim>\<open>filteredTodos\<close> of the \<^verbatim>\<open>TodoList\<close> component. The search runs only when the
  trimmed query is not empty, and then with the query as typed (untrimmed).
\<close>

definition filteredTodos ::
  "(jsstring \<Rightarrow> jsstring) \<Rightarrow> todo list \<Rightarrow> jsstring \<Rightarrow> string \<Rightarrow> error + todo list" where
  "filteredTodos toLowerCase todos searchQuery filterStatus =
     (case (if trim searchQuery \<noteq> []
            then filterM (titleMatches toLowerCase searchQuery) todos
            else Inr todos) of
        Inl e \<Rightarrow> Inl e
      | Inr filtered \<Rightarrow>
          Inr (if filterStatus = ''completed'' then filter isCompleted filtered
               else if filterStatus = ''pending'' then filter (\<lambda>t. \<not> isCompleted t) filtered
               else filtered))"






section \<open>The environment: remote API and local storage\<close>

text \<open>
  The remote API is a third-party service reached through \<^verbatim>\<open>axios\<close>. It is a
  parameter of the model: a state of some type \<open>'r\<close> and one function per request the
  service layer sends. A request returns the response body, or \<open>None\<close> when the promise
  is rejected (network failure, timeout, error status), together with the state of the
  remote side after the request.
\<close>

record 'r api =
  get_todos :: "'r \<Rightarrow> todo list option \<times> 'r"
  get_todo :: "'r \<Rightarrow> int \<Rightarrow> todo option \<times> 'r"
  post_todo :: "'r \<Rightarrow> todo \<Rightarrow> todo option \<times> 'r"
  put_todo :: "'r \<Rightarrow> int \<Rightarrow> todo \<Rightarrow> todo option \<times> 'r"
  delete_todo :: "'r \<Rightarrow> int \<Rightarrow> bool \<times> 'r"

text \<open>
  The world the service layer runs in: the remote side, the \<^verbatim>\<open>localforage\<close> store as
  its key/value pairs in iteration order, and whether the store answers at all (a
  \<^verbatim>\<open>localforage\<close> promise is rejected when it does not).
\<close>

record 'r world =
  server :: 'r
  storage :: "(string \<times> todo) list"
  storageUp :: bool


definition setItem :: "string \<Rightarrow> todo \<Rightarrow> 'r world \<Rightarrow> 'r world option" where
  "setItem k v w =
     (if storageUp w then Some (w\<lparr>storage := AList.update k v (storage w)\<rparr>) else None)"

definition removeItem :: "string \<Rightarrow> 'r world \<Rightarrow> 'r world option" where
  "removeItem k w =
     (if storageUp w then Some (w\<lparr>storage := AList.delete k (storage w)\<rparr>) else None)"

definition iterate :: "'r world \<Rightarrow> (string \<times> todo) list option" where
  "iterate w = (if storageUp w then Some (storage w) else None)"

text \<open>
  The template string \<^verbatim>\<open>`todo-${id}`\<close>: the decimal numeral of an integer identifier
  after the prefix. \<open>digitChar\<close> is only applied to a digit below 10.
\<close>

definition digitChar :: "nat \<Rightarrow> char" where
  "digitChar d = ''0123456789'' ! d"

fun digitsOf :: "nat \<Rightarrow> string" where
  "digitsOf n =
     (if n < 10 then [digitChar n] else digitsOf (n div 10) @ [digitChar (n mod 10)])"

declare digitsOf.simps [simp del]

definition numToString :: "int \<Rightarrow> string" where
  "numToString i = (if i < 0 then CHR ''-'' # digitsOf (nat (- i)) else digitsOf (nat i))"

definition todoKey :: "int \<Rightarrow> string" where
  "todoKey i = ''todo-'' @ numToString i"

section \<open>The service layer \<^verbatim>\<open>TodoService\<close>\<close>

text \<open>
  Each operation takes the API and the world and returns its result, \<open>Inl\<close> for the
  error thrown from its \<^verbatim>\<open>catch\<close> block, with the world after it.
\<close>

definition getAllTodos :: "'r api \<Rightarrow> 'r world \<Rightarrow> (error + todo list) \<times> 'r world" where
  "getAllTodos a w =
     (case get_todos a (server w) of
        (None, r) \<Rightarrow> (Inl (Error ''Failed to fetch todos''), w\<lparr>server := r\<rparr>)
      | (Some d, r) \<Rightarrow> (Inr d, w\<lparr>server := r\<rparr>))"


text \<open>
  \<^verbatim>\<open>createTodo\<close>: \<open>now\<close> is the value of \<^verbatim>\<open>Date.now()\<close>. The request body
  \<open>createRequest\<close> is the object literal passed to \<^verbatim>\<open>api.post\<close>: the input's title and the
  constants \<^verbatim>\<open>completed: false\<close>, \<^verbatim>\<open>userId: 1\<close>.
\<close>

definition createRequest :: "todo \<Rightarrow> todo" where
  "createRequest todoData =
     emptyObj\<lparr>title := title todoData, completed := Some False, userId := Some 1\<rparr>"

definition createTodo ::
  "'r api \<Rightarrow> int \<Rightarrow> todo \<Rightarrow> 'r world \<Rightarrow> (error + todo) \<times> 'r world" where
  "createTodo a now todoData w =
     (case post_todo a (server w) (createRequest todoData) of
        (None, r) \<Rightarrow> (Inl (Error ''Failed to create todo''), w\<lparr>server := r\<rparr>)
      | (Some d, r) \<Rightarrow>
          (let localTodo = d\<lparr>todoId := Some now, isLocal := Some True\<rparr> in
           case setItem (todoKey now) localTodo (w\<lparr>server := r\<rparr>) of
             None \<Rightarrow> (Inl (Error ''Failed to create todo''), w\<lparr>server := r\<rparr>)
           | Some w' \<Rightarrow> (Inr localTodo, w')))"


text \<open>\<^verbatim>\<open>deleteTodo\<close> returns \<^verbatim>\<open>{ success: true }\<close>, here the unit value.\<close>

definition deleteTodo :: "'r api \<Rightarrow> int \<Rightarrow> 'r world \<Rightarrow> (error + unit) \<times> 'r world" where
  "deleteTodo a i w =
     (let failed = Error (''Failed to delete todo with ID '' @ numToString i) in
      case delete_todo a (server w) i of
        (False, r) \<Rightarrow> (Inl failed, w\<lparr>server := r\<rparr>)
      | (True, r) \<Rightarrow>
          (case removeItem (todoKey i) (w\<lparr>server := r\<rparr>) of
             None \<Rightarrow> (Inl failed, w\<lparr>server := r\<rparr>)
           | Some w' \<Rightarrow> (Inr (), w')))"

text \<open>
  \<^verbatim>\<open>getLocalTodos\<close> collects the values whose key starts with \<^verbatim>\<open>todo-\<close>; its
  \<^verbatim>\<open>catch\<close> block turns a rejected iteration into the empty list, so it never throws.
\<close>

definition getLocalTodos :: "'r world \<Rightarrow> todo list" where
  "getLocalTodos w =
     (case iterate w of
        None \<Rightarrow> []
      | Some kvs \<Rightarrow> map snd (filter (\<lambda>kv. prefix ''todo-'' (fst kv)) kvs))"

definition searchTodos ::
  "(jsstring \<Rightarrow> jsstring) \<Rightarrow> 'r api \<Rightarrow> jsstring \<Rightarrow> 'r world
     \<Rightarrow> (error + todo list) \<times> 'r world" where
  "searchTodos toLowerCase a query w =
     (case getAllTodos a w of
        (Inl e, w') \<Rightarrow> (Inl (Error ''Failed to search todos''), w')
      | (Inr allTodos, w') \<Rightarrow>
          (case filterM (titleMatches toLowerCase query) (allTodos @ getLocalTodos w') of
             Inl e \<Rightarrow> (Inl (Error ''Failed to search todos''), w')
           | Inr found \<Rightarrow> (Inr found, w')))"

text \<open>
  \<^verbatim>\<open>queryFn\<close> of the \<^verbatim>\<open>TodoList\<close> component, the fetch-all:
  \<^verbatim>\<open>Promise.all([getAllTodos(), getLocalTodos()])\<close>, then \<^verbatim>\<open>[...apiTodos, ...localTodos]\<close>.
  The two reads touch disjoint parts of the world, so their interleaving does not show in
  the result; the aggregate is rejected exactly when \<^verbatim>\<open>getAllTodos\<close> is.
\<close>

definition queryFn :: "'r api \<Rightarrow> 'r world \<Rightarrow> (error + todo list) \<times> 'r world" where
  "queryFn a w =
     (case getAllTodos a w of
        (Inl e, w') \<Rightarrow> (Inl e, w')
      | (Inr apiTodos, w') \<Rightarrow> (Inr (apiTodos @ getLocalTodos w'), w'))"

section \<open>Well-formed stores\<close>

text \<open>
  The shape \<^verbatim>\<open>createTodo\<close> gives the store: keys are pairwise different, and an entry
  under a \<^verbatim>\<open>todo-\<close> key holds a task whose own identifier spells that key.
\<close>

definition keyed :: "string \<times> todo \<Rightarrow> bool" where
  "keyed kv = (case todoId (snd kv) of None \<Rightarrow> False | Some j \<Rightarrow> fst kv = todoKey j)"

definition wfStore :: "(string \<times> todo) list \<Rightarrow> bool" where
  "wfStore st =
     (distinct (map fst st) \<and> list_all (\<lambda>kv. prefix ''todo-'' (fst kv) \<longrightarrow> keyed kv) st)"

section \<open>A simulated remote API\<close>

text \<open>
  Modelled from the spec: the remote data source is an external REST API that is not
  part of the repository; the spec describes it as returning a fixed task list, with
  simulated writes that the server does not persist, and the source's comments call its
  create, update and delete "simulated". This instance of the API parameter has a
  fixed data set, answers only while \<open>online\<close>, echoes the body of a write with the
  identifier the server assigns, changes nothing on a write, and records every request
  it receives.
\<close>

record placeholder =
  dataset :: "todo list"
  online :: bool
  requests :: "string list"

definition received :: "string \<Rightarrow> placeholder \<Rightarrow> placeholder" where
  "received req s = s\<lparr>requests := requests s @ [req]\<rparr>"

definition answer :: "placeholder \<Rightarrow> 'a option \<Rightarrow> 'a option" where
  "answer s x = (if online s then x else None)"

definition placeholderApi :: "placeholder api" where
  "placeholderApi =
     \<lparr>get_todos = (\<lambda>s. (answer s (Some (dataset s)), received ''GET /todos'' s)),
      get_todo = (\<lambda>s i. (answer s (find (\<lambda>t. todoId t = Some i) (dataset s)),
                          received (''GET /todos/'' @ numToString i) s)),
      post_todo = (\<lambda>s body. (answer s (Some (body\<lparr>todoId := Some (int (length (dataset s)) + 1)\<rparr>)),
                              received ''POST /todos'' s)),
      put_todo = (\<lambda>s i body. (answer s (Some (body\<lparr>todoId := Some i\<rparr>)),
                               received (''PUT /todos/'' @ numToString i) s)),
      delete_todo = (\<lambda>s i. (online s, received (''DELETE /todos/'' @ numToString i) s))\<rparr>"

section \<open>Sample data\<close>

text \<open>
  The sample data is ASCII text. On ASCII text \<^verbatim>\<open>toLowerCase\<close> maps the letters
  \<^verbatim>\<open>A\<close> to \<^verbatim>\<open>Z\<close> to \<^verbatim>\<open>a\<close> to \<^verbatim>\<open>z\<close> and leaves every other character as it is;
  \<open>asciiLower\<close> does that, and stands for the runtime's function where the model is run
  on the sample data.
\<close>

definition asciiLower :: "jsstring \<Rightarrow> jsstring" where
  "asciiLower s = map (\<lambda>c. if 65 \<le> c \<and> c \<le> 90 then c + 32 else c) s"

text \<open>A remote-origin task with identifier \<open>i\<close>, used to run the model on concrete inputs.\<close>

definition sample :: "int \<Rightarrow> todo" where
  "sample i =
     \<lparr>todoId = Some i, title = Some (utf16 ''task''), completed = Some False, userId = Some 1,
      isLocal = None\<rparr>"

text \<open>A locally created task, as \<^verbatim>\<open>createTodo\<close> stores it.\<close>

definition localSample :: "int \<Rightarrow> todo" where
  "localSample i =
     \<lparr>todoId = Some i, title = Some (utf16 ''Buy Milk''), completed = Some False, userId = Some 1,
      isLocal = Some True\<rparr>"

text \<open>
  A world over the simulated API: two remote tasks, one local task created at the
  timestamp 1700000000000; the remote side is online or not, the store answers or not.
\<close>

definition sampleWorld :: "bool \<Rightarrow> bool \<Rightarrow> placeholder world" where
  "sampleWorld on up =
     \<lparr>server = \<lparr>dataset = [sample 1, sample 2], online = on, requests = []\<rparr>,
      storage = [(todoKey 1700000000000, localSample 1700000000000)],
      storageUp = up\<rparr>"


section \<open>Pagination\<close>










section \<open>The sample world\<close>

text \<open>
  Values of the model on the sample data.
\<close>

lemma sampleKey: "todoKey 1700000000000 = ''todo-1700000000000''"
  by (simp add: todoKey_def numToString_def digitsOf.simps digitChar_def)

lemma placeholder_get_todos:
  "get_todos placeholderApi s = (if online s then Some (dataset s) else None, received ''GET /todos'' s)"
  by (simp add: placeholderApi_def answer_def)

lemma placeholder_post:
  "post_todo placeholderApi s body =
     (if online s then Some (body\<lparr>todoId := Some (int (length (dataset s)) + 1)\<rparr>) else None,
      received ''POST /todos'' s)"
  by (simp add: placeholderApi_def answer_def)


lemma placeholder_delete:
  "delete_todo placeholderApi s i = (online s, received (''DELETE /todos/'' @ numToString i) s)"
  by (simp add: placeholderApi_def)


lemma sampleWorld_simps [simp]:
  "storageUp (sampleWorld on up) = up"
  "storage (sampleWorld on up) = [(''todo-1700000000000'', localSample 1700000000000)]"
  "online (server (sampleWorld on up)) = on"
  "dataset (server (sampleWorld on up)) = [sample 1, sample 2]"
  by (simp_all add: sampleWorld_def sampleKey)

lemma sampleKeys:
  "todoKey 1700000000001 = ''todo-1700000000001''" "todoKey 1 = ''todo-1''"
  "numToString 1700000000000 = ''1700000000000''"
  by (simp_all add: todoKey_def numToString_def digitsOf.simps digitChar_def)

lemma getLocalTodos_up:
  "storageUp w \<Longrightarrow> getLocalTodos w = map snd (filter (\<lambda>kv. prefix ''todo-'' (fst kv)) (storage w))"
  by (simp add: getLocalTodos_def iterate_def)

lemma getLocalTodos_down: "\<not> storageUp w \<Longrightarrow> getLocalTodos w = []"
  by (simp add: getLocalTodos_def iterate_def)

lemma getLocalTodos_server [simp]: "getLocalTodos (w\<lparr>server := r\<rparr>) = getLocalTodos w"
  by (simp add: getLocalTodos_def iterate_def)

lemma prefix_todoKey: "prefix ''todo-'' (todoKey i)"
  by (simp add: todoKey_def)

section \<open>Search\<close>

lemma filterM_holds:
  "filterM p xs = Inr ys \<Longrightarrow> t \<in> set ys \<Longrightarrow> p t = Inr True"
proof (induction xs arbitrary: ys)
  case Nil
  then show ?case by simp
next
  case (Cons x xs)
  from Cons.prems(1) obtain b zs where b: "p x = Inr b" and zs: "filterM p xs = Inr zs"
    and ys: "ys = (if b then x # zs else zs)"
    by (auto split: sum.splits)
  show ?case
  proof (cases "t \<in> set zs")
    case True
    then show ?thesis using Cons.IH[OF zs] by simp
  next
    case False
    with Cons.prems(2) ys have "b" "t = x" by (auto split: if_splits)
    with b show ?thesis by simp
  qed
qed

lemma js_includes_sublist: "js_includes s q \<longleftrightarrow> sublist q s"
  by (induction s) (simp_all add: sublist_Cons_right)

lemma titleMatches_contains:
  assumes "titleMatches lc query t = Inr True"
  shows "\<exists>s pre post. title t = Some s \<and> lc s = pre @ lc query @ post"
proof -
  from assms obtain s where s: "title t = Some s" and i: "js_includes (lc s) (lc query)"
    by (auto simp: titleMatches_def split: option.splits)
  from i obtain pre post where "lc s = pre @ lc query @ post"
    unfolding js_includes_sublist sublist_def by blast
  with s show ?thesis by blast
qed

lemma trim_empty: "trim s = [] \<longleftrightarrow> list_all isWhiteSpace s"
proof -
  have "trim s = [] \<longleftrightarrow> dropWhile isWhiteSpace (rev (dropWhile isWhiteSpace s)) = []"
    by (simp add: trim_def)
  also have "\<dots> \<longleftrightarrow> dropWhile isWhiteSpace s = []"
  proof
    assume a: "dropWhile isWhiteSpace (rev (dropWhile isWhiteSpace s)) = []"
    show "dropWhile isWhiteSpace s = []"
    proof (rule ccontr)
      assume n: "dropWhile isWhiteSpace s \<noteq> []"
      then have "\<not> isWhiteSpace (hd (dropWhile isWhiteSpace s))"
        by (rule hd_dropWhile)
      moreover from n have "hd (dropWhile isWhiteSpace s) \<in> set (rev (dropWhile isWhiteSpace s))"
        by simp
      ultimately show False using a by (simp add: dropWhile_eq_Nil_conv)
    qed
  next
    assume e: "dropWhile isWhiteSpace s = []"
    show "dropWhile isWhiteSpace (rev (dropWhile isWhiteSpace s)) = []"
      unfolding e by simp
  qed
  also have "\<dots> \<longleftrightarrow> list_all isWhiteSpace s"
    by (simp add: dropWhile_eq_Nil_conv list_all_iff)
  finally show ?thesis .
qed

lemma filteredTodos_subset:
  assumes "trim query \<noteq> []" "filteredTodos lc todos query st = Inr found" "t \<in> set found"
  shows "titleMatches lc query t = Inr True"
proof -
  from assms(1,2) obtain mid where m: "filterM (titleMatches lc query) todos = Inr mid"
    and f: "found = (if st = ''completed'' then filter isCompleted mid
               else if st = ''pending'' then filter (\<lambda>t. \<not> isCompleted t) mid
               else mid)"
    by (simp add: filteredTodos_def split: sum.splits)
  from f assms(3) have "t \<in> set mid"
    by (simp split: if_splits)
  with m show ?thesis by (rule filterM_holds)
qed

lemma getAllTodos_cases:
  "getAllTodos a w =
     (case fst (get_todos a (server w)) of
        None \<Rightarrow> Inl (Error ''Failed to fetch todos'')
      | Some d \<Rightarrow> Inr d,
      w\<lparr>server := snd (get_todos a (server w))\<rparr>)"
  by (simp add: getAllTodos_def split: prod.splits option.splits)

lemma searchTodos_subset:
  assumes "fst (searchTodos lc a query w) = Inr found" "t \<in> set found"
  shows "titleMatches lc query t = Inr True"
proof -
  from assms(1) obtain xs where "filterM (titleMatches lc query) xs = Inr found"
    by (simp add: searchTodos_def getAllTodos_cases split: option.splits sum.splits)
  then show ?thesis using assms(2) by (rule filterM_holds)
qed

text \<open>
  Claim C2, as amended. Whenever the search runs, every item of the result contains the
  search string case-insensitively in its title: the lower-cased title is the lower-cased
  query with some text before and after it, for the runtime's \<^verbatim>\<open>toLowerCase\<close> as for
  every other function in its place. In the list view the search runs for every query
  that is not empty after trimming (the query is matched as typed); in
  \<^verbatim>\<open>searchTodos\<close> it runs for every query. A query is empty after trimming exactly
  when all its code units are white space, and then the list view does not search: the
  result is the collection under the status filter alone.
\<close>

theorem search_results_match:
  "(trim query \<noteq> [] \<and> filteredTodos toLowerCase todos query filterStatus = Inr found
      \<and> t \<in> set found \<longrightarrow>
      (\<exists>s pre post. title t = Some s \<and> toLowerCase s = pre @ toLowerCase query @ post))
   \<and> (fst (searchTodos toLowerCase a query w) = Inr found' \<and> t' \<in> set found' \<longrightarrow>
      (\<exists>s pre post. title t' = Some s \<and> toLowerCase s = pre @ toLowerCase query @ post))
   \<and> (trim query = [] \<longleftrightarrow> list_all isWhiteSpace query)
   \<and> (trim query = [] \<longrightarrow>
      filteredTodos toLowerCase todos query filterStatus
        = Inr (if filterStatus = ''completed'' then filter isCompleted todos
               else if filterStatus = ''pending'' then filter (\<lambda>t. \<not> isCompleted t) todos
               else todos))"
proof (intro conjI impI)
  assume "trim query \<noteq> [] \<and> filteredTodos toLowerCase todos query filterStatus = Inr found
      \<and> t \<in> set found"
  then have "titleMatches toLowerCase query t = Inr True"
    using filteredTodos_subset by blast
  then show "\<exists>s pre post. title t = Some s \<and> toLowerCase s = pre @ toLowerCase query @ post"
    by (rule titleMatches_contains)
next
  assume "fst (searchTodos toLowerCase a query w) = Inr found' \<and> t' \<in> set found'"
  then have "titleMatches toLowerCase query t' = Inr True"
    using searchTodos_subset by blast
  then show "\<exists>s pre post. title t' = Some s \<and> toLowerCase s = pre @ toLowerCase query @ post"
    by (rule titleMatches_contains)
next
  show "trim query = [] \<longleftrightarrow> list_all isWhiteSpace query"
    by (rule trim_empty)
next
  assume "trim query = []"
  then show "filteredTodos toLowerCase todos query filterStatus
        = Inr (if filterStatus = ''completed'' then filter isCompleted todos
               else if filterStatus = ''pending'' then filter (\<lambda>t. \<not> isCompleted t) todos
               else todos)"
    by (simp add: filteredTodos_def)
qed

text \<open>
  Claim C2 as stated fails for a non-empty query of white space only, here a single
  space: the list view skips the search, and the result keeps a task whose title does
  not contain the query.
\<close>

theorem search_blank_counterexample:
  "utf16 '' '' \<noteq> []
   \<and> filteredTodos asciiLower [sample 1] (utf16 '' '') ''all'' = Inr [sample 1]
   \<and> title (sample 1) = Some (utf16 ''task'')
   \<and> \<not> js_includes (asciiLower (utf16 ''task'')) (asciiLower (utf16 '' ''))"
proof -
  have "trim (utf16 '' '') = []"
    by (simp add: utf16_def trim_def isWhiteSpace_def)
  moreover have "\<not> js_includes (asciiLower (utf16 ''task'')) (asciiLower (utf16 '' ''))"
    "utf16 '' '' \<noteq> []"
    by (simp_all add: utf16_def asciiLower_def)
  ultimately show ?thesis
    by (simp add: filteredTodos_def sample_def)
qed

text \<open>
  The theorem at concrete searches: for \<^verbatim>\<open>MILK\<close> the list view keeps the task titled
  \<^verbatim>\<open>Buy Milk\<close> and drops the task titled \<^verbatim>\<open>task\<close>, and so does \<^verbatim>\<open>searchTodos\<close>
  on the sample world; for a query of a no-break space, an em space and a space the list
  view keeps every task.
\<close>

theorem search_results_match_witness:
  "trim (utf16 ''MILK'') \<noteq> []
   \<and> filteredTodos asciiLower [sample 1, localSample 7] (utf16 ''MILK'') ''all''
        = Inr [localSample 7]
   \<and> localSample 7 \<in> set [localSample 7]
   \<and> (\<exists>s pre post. title (localSample 7) = Some s
         \<and> asciiLower s = pre @ asciiLower (utf16 ''MILK'') @ post)
   \<and> fst (searchTodos asciiLower placeholderApi (utf16 ''MILK'') (sampleWorld True True))
        = Inr [localSample 1700000000000]
   \<and> localSample 1700000000000 \<in> set [localSample 1700000000000]
   \<and> (\<exists>s pre post. title (localSample 1700000000000) = Some s
         \<and> asciiLower s = pre @ asciiLower (utf16 ''MILK'') @ post)
   \<and> trim [160, 8195, 32] = []
   \<and> list_all isWhiteSpace [160, 8195, 32]
   \<and> filteredTodos asciiLower [sample 1, localSample 7] [160, 8195, 32] ''all''
        = Inr [sample 1, localSample 7]"
proof -
  have lc: "asciiLower (utf16 ''task'') = utf16 ''task''"
    "asciiLower (utf16 ''MILK'') = utf16 ''milk''"
    "asciiLower (utf16 ''Buy Milk'') = utf16 ''buy milk''"
    by (simp_all add: utf16_def asciiLower_def)
  have inc: "js_includes (utf16 ''buy milk'') (utf16 ''milk'')"
    "\<not> js_includes (utf16 ''task'') (utf16 ''milk'')"
    by (simp_all add: utf16_def)
  have h1: "trim (utf16 ''MILK'') \<noteq> []"
    by (simp add: utf16_def trim_def isWhiteSpace_def)
  have h2: "filteredTodos asciiLower [sample 1, localSample 7] (utf16 ''MILK'') ''all''
        = Inr [localSample 7]"
    using h1 by (simp add: filteredTodos_def titleMatches_def sample_def localSample_def lc inc)
  have h3: "localSample 7 \<in> set [localSample 7]" by simp
  have h4: "fst (searchTodos asciiLower placeholderApi (utf16 ''MILK'') (sampleWorld True True))
        = Inr [localSample 1700000000000]"
    by (simp add: searchTodos_def getAllTodos_cases placeholder_get_todos getLocalTodos_up
        titleMatches_def sample_def localSample_def lc inc)
  have h5: "localSample 1700000000000 \<in> set [localSample 1700000000000]" by simp
  have h6: "trim [160, 8195, 32] = []"
    by (simp add: trim_def isWhiteSpace_def)
  note a = search_results_match[where query = "utf16 ''MILK''" and toLowerCase = asciiLower
      and todos = "[sample 1, localSample 7]" and filterStatus = "''all''"
      and found = "[localSample 7]" and t = "localSample 7" and a = placeholderApi
      and w = "sampleWorld True True" and found' = "[localSample 1700000000000]"
      and t' = "localSample 1700000000000"]
  note b = search_results_match[where query = "[160, 8195, 32]" and toLowerCase = asciiLower
      and todos = "[sample 1, localSample 7]" and filterStatus = "''all''"]
  from a h1 h2 h3 have c: "\<exists>s pre post. title (localSample 7) = Some s
         \<and> asciiLower s = pre @ asciiLower (utf16 ''MILK'') @ post"
    by blast
  from a h4 h5 have d: "\<exists>s pre post. title (localSample 1700000000000) = Some s
         \<and> asciiLower s = pre @ asciiLower (utf16 ''MILK'') @ post"
    by blast
  from b h6 have e: "list_all isWhiteSpace [160, 8195, 32]"
    by blast
  from b h6 have "filteredTodos asciiLower [sample 1, localSample 7] [160, 8195, 32] ''all''
        = Inr (if ''all'' = ''completed'' then filter isCompleted [sample 1, localSample 7]
               else if ''all'' = ''pending''
                 then filter (\<lambda>t. \<not> isCompleted t) [sample 1, localSample 7]
               else [sample 1, localSample 7])"
    by blast
  then have f: "filteredTodos asciiLower [sample 1, localSample 7] [160, 8195, 32] ''all''
        = Inr [sample 1, localSample 7]"
    by simp
  from h1 h2 h3 h4 h5 h6 c d e f show ?thesis by blast
qed

section \<open>Fetch-all\<close>

lemma queryFn_cases:
  "fst (queryFn a w) =
     (case fst (get_todos a (server w)) of
        None \<Rightarrow> Inl (Error ''Failed to fetch todos'')
      | Some rs \<Rightarrow> Inr (rs @ getLocalTodos w))"
  by (simp add: queryFn_def getAllTodos_cases split: option.splits)

text \<open>
  Claim C4, as amended. If the remote read fails, fetch-all fails with the single error
  \<^verbatim>\<open>Failed to fetch todos\<close>, whatever the local read does. If only the local read
  fails, fetch-all does not fail: \<^verbatim>\<open>getLocalTodos\<close> turns the failure into the empty
  list, and fetch-all returns the remote list alone.
\<close>

theorem fetch_all_errors:
  "(fst (get_todos a (server w)) = None \<longrightarrow>
      fst (queryFn a w) = Inl (Error ''Failed to fetch todos''))
   \<and> (\<forall>rs. fst (get_todos a (server w)) = Some rs \<and> \<not> storageUp w \<longrightarrow>
      fst (queryFn a w) = Inr rs)"
  by (simp add: queryFn_cases getLocalTodos_down)

text \<open>
  Claim C4 as stated fails when the local read fails and the remote read succeeds:
  fetch-all returns the remote tasks and no error.
\<close>

theorem fetch_all_local_failure_counterexample:
  "iterate (sampleWorld True False) = None
   \<and> fst (queryFn placeholderApi (sampleWorld True False)) = Inr [sample 1, sample 2]"
  by (simp add: iterate_def queryFn_cases getLocalTodos_down sampleWorld_def placeholder_get_todos)

text \<open>
  The theorem with the remote side offline, and with the store not answering.
\<close>

theorem fetch_all_errors_witness:
  "fst (get_todos placeholderApi (server (sampleWorld False True))) = None
   \<and> fst (queryFn placeholderApi (sampleWorld False True)) = Inl (Error ''Failed to fetch todos'')
   \<and> fst (get_todos placeholderApi (server (sampleWorld True False))) = Some [sample 1, sample 2]
   \<and> \<not> storageUp (sampleWorld True False)
   \<and> fst (queryFn placeholderApi (sampleWorld True False)) = Inr [sample 1, sample 2]"
proof -
  have h1: "fst (get_todos placeholderApi (server (sampleWorld False True))) = None"
    by (simp add: sampleWorld_def placeholder_get_todos)
  have h2: "fst (get_todos placeholderApi (server (sampleWorld True False))) = Some [sample 1, sample 2]"
    "\<not> storageUp (sampleWorld True False)"
    by (simp_all add: sampleWorld_def placeholder_get_todos)
  from fetch_all_errors[of placeholderApi "sampleWorld False True"] h1
  have a: "fst (queryFn placeholderApi (sampleWorld False True)) = Inl (Error ''Failed to fetch todos'')"
    by blast
  from fetch_all_errors[of placeholderApi "sampleWorld True False"] h2
  have b: "fst (queryFn placeholderApi (sampleWorld True False)) = Inr [sample 1, sample 2]"
    by blast
  from h1 h2 a b show ?thesis by blast
qed

text \<open>
  Claim C7. When the remote read returns the list \<open>rs\<close> and the store answers,
  fetch-all returns \<open>rs\<close> followed by the values of all \<^verbatim>\<open>todo-\<close> keys in the store's
  order: remote tasks first, local tasks second, each in its own order, nothing removed.
  \<^verbatim>\<open>searchTodos\<close> filters the same concatenation. The two reads are issued together
  in the source; they touch disjoint state, so the model runs them one after the other.
\<close>

theorem fetch_all_concat:
  assumes "fst (get_todos a (server w)) = Some rs" and "storageUp w"
  shows "fst (queryFn a w)
           = Inr (rs @ map snd (filter (\<lambda>kv. prefix ''todo-'' (fst kv)) (storage w)))
       \<and> fst (searchTodos toLowerCase a query w)
           = (case filterM (titleMatches toLowerCase query)
                     (rs @ map snd (filter (\<lambda>kv. prefix ''todo-'' (fst kv)) (storage w))) of
                Inl e \<Rightarrow> Inl (Error ''Failed to search todos'')
              | Inr found \<Rightarrow> Inr found)"
  using assms
  by (simp add: queryFn_cases searchTodos_def getAllTodos_cases getLocalTodos_up split: sum.splits)

text \<open>
  The theorem on the sample world: two remote tasks, then the local task.
\<close>

theorem fetch_all_concat_witness:
  "fst (get_todos placeholderApi (server (sampleWorld True True))) = Some [sample 1, sample 2]
   \<and> storageUp (sampleWorld True True)
   \<and> fst (queryFn placeholderApi (sampleWorld True True))
       = Inr [sample 1, sample 2, localSample 1700000000000]"
proof -
  have h1: "fst (get_todos placeholderApi (server (sampleWorld True True))) = Some [sample 1, sample 2]"
    and h2: "storageUp (sampleWorld True True)"
    by (simp_all add: sampleWorld_def placeholder_get_todos)
  have s: "storage (sampleWorld True True) = [(''todo-1700000000000'', localSample 1700000000000)]"
    by (simp add: sampleWorld_def sampleKey)
  from fetch_all_concat[OF h1 h2, where query = "[]" and toLowerCase = asciiLower]
  have "fst (queryFn placeholderApi (sampleWorld True True))
       = Inr [sample 1, sample 2, localSample 1700000000000]"
    by (simp add: s)
  with h1 h2 show ?thesis by blast
qed

section \<open>The write operations by cases\<close>

text \<open>
  Each write operation, case by case on the outcome of its remote request and on the
  store.
\<close>

lemma createTodo_cases:
  "createTodo a now d w =
     (case fst (post_todo a (server w) (createRequest d)) of
        None \<Rightarrow> (Inl (Error ''Failed to create todo''),
                 w\<lparr>server := snd (post_todo a (server w) (createRequest d))\<rparr>)
      | Some resp \<Rightarrow>
          if storageUp w
          then (Inr (resp\<lparr>todoId := Some now, isLocal := Some True\<rparr>),
                w\<lparr>server := snd (post_todo a (server w) (createRequest d)),
                  storage := AList.update (todoKey now)
                               (resp\<lparr>todoId := Some now, isLocal := Some True\<rparr>) (storage w)\<rparr>)
          else (Inl (Error ''Failed to create todo''),
                w\<lparr>server := snd (post_todo a (server w) (createRequest d))\<rparr>))"
  by (simp add: createTodo_def setItem_def Let_def split: prod.splits option.splits)


lemma deleteTodo_cases:
  "deleteTodo a i w =
     (if fst (delete_todo a (server w) i) \<and> storageUp w
      then (Inr (), w\<lparr>server := snd (delete_todo a (server w) i),
                      storage := AList.delete (todoKey i) (storage w)\<rparr>)
      else (Inl (Error (''Failed to delete todo with ID '' @ numToString i)),
            w\<lparr>server := snd (delete_todo a (server w) i)\<rparr>))"
  by (simp add: deleteTodo_def removeItem_def Let_def split: prod.splits bool.splits)


lemma update_member: "(k, v) \<in> set (AList.update k v al)"
  by (induction al) auto

lemma stored_is_listed:
  assumes "storageUp w" "(todoKey i, v) \<in> set (storage w)"
  shows "v \<in> set (getLocalTodos w)"
proof -
  from assms(2) have "(todoKey i, v) \<in> set (filter (\<lambda>kv. prefix ''todo-'' (fst kv)) (storage w))"
    by (simp add: prefix_todoKey)
  then have "snd (todoKey i, v) \<in> snd ` set (filter (\<lambda>kv. prefix ''todo-'' (fst kv)) (storage w))"
    by (rule imageI)
  then show ?thesis using assms(1) by (simp add: getLocalTodos_up)
qed

text \<open>
  Claim C3, as amended. Create first sends the request \<open>createRequest\<close> (the input's
  title, \<^verbatim>\<open>completed: false\<close>, \<^verbatim>\<open>userId: 1\<close>) to the remote API, in every case. If the
  request fails, create fails with \<^verbatim>\<open>Failed to create todo\<close> and local storage is
  unchanged. If it succeeds and the store answers, the task is the server's response with
  the identifier replaced by the timestamp and the local-origin flag set; it is written
  to local storage under its \<^verbatim>\<open>todo-\<close> key, returned, and listed by
  \<^verbatim>\<open>getLocalTodos\<close>.
\<close>

theorem create_remote_first:
  "server (snd (createTodo a now d w)) = snd (post_todo a (server w) (createRequest d))
   \<and> (fst (post_todo a (server w) (createRequest d)) = None \<longrightarrow>
      fst (createTodo a now d w) = Inl (Error ''Failed to create todo'')
      \<and> storage (snd (createTodo a now d w)) = storage w)
   \<and> (\<forall>resp. fst (post_todo a (server w) (createRequest d)) = Some resp \<and> storageUp w \<longrightarrow>
      fst (createTodo a now d w) = Inr (resp\<lparr>todoId := Some now, isLocal := Some True\<rparr>)
      \<and> map_of (storage (snd (createTodo a now d w))) (todoKey now)
            = Some (resp\<lparr>todoId := Some now, isLocal := Some True\<rparr>)
      \<and> resp\<lparr>todoId := Some now, isLocal := Some True\<rparr>
            \<in> set (getLocalTodos (snd (createTodo a now d w))))"
proof (intro conjI impI allI)
  show "server (snd (createTodo a now d w)) = snd (post_todo a (server w) (createRequest d))"
    by (simp add: createTodo_cases split: option.splits)
next
  assume "fst (post_todo a (server w) (createRequest d)) = None"
  then show "fst (createTodo a now d w) = Inl (Error ''Failed to create todo'')"
    "storage (snd (createTodo a now d w)) = storage w"
    by (simp_all add: createTodo_cases)
next
  fix resp
  assume h: "fst (post_todo a (server w) (createRequest d)) = Some resp \<and> storageUp w"
  let ?t = "resp\<lparr>todoId := Some now, isLocal := Some True\<rparr>"
  from h have c: "createTodo a now d w =
      (Inr ?t, w\<lparr>server := snd (post_todo a (server w) (createRequest d)),
                  storage := AList.update (todoKey now) ?t (storage w)\<rparr>)"
    by (simp add: createTodo_cases)
  show "fst (createTodo a now d w) = Inr ?t" by (simp add: c)
  show "map_of (storage (snd (createTodo a now d w))) (todoKey now) = Some ?t"
    by (simp add: c AList.update_conv')
  show "?t \<in> set (getLocalTodos (snd (createTodo a now d w)))"
    using h by (intro stored_is_listed[of _ now]) (simp_all add: c update_member)
qed

text \<open>
  Claim C3 as stated fails when the remote call fails: no task is produced and nothing
  is written to local storage.
\<close>

theorem create_offline_counterexample:
  "fst (createTodo placeholderApi 1700000000001 (emptyObj\<lparr>title := Some (utf16 ''Walk'')\<rparr>)
          (sampleWorld False True)) = Inl (Error ''Failed to create todo'')
   \<and> storage (snd (createTodo placeholderApi 1700000000001 (emptyObj\<lparr>title := Some (utf16 ''Walk'')\<rparr>)
          (sampleWorld False True))) = [(''todo-1700000000000'', localSample 1700000000000)]"
  by (simp add: createTodo_cases placeholder_post)

text \<open>
  The theorem with the remote side offline, and online.
\<close>

theorem create_remote_first_witness:
  "fst (post_todo placeholderApi (server (sampleWorld False True))
          (createRequest (emptyObj\<lparr>title := Some (utf16 ''Walk'')\<rparr>))) = None
   \<and> fst (createTodo placeholderApi 1700000000001 (emptyObj\<lparr>title := Some (utf16 ''Walk'')\<rparr>)
          (sampleWorld False True)) = Inl (Error ''Failed to create todo'')
   \<and> fst (post_todo placeholderApi (server (sampleWorld True True))
          (createRequest (emptyObj\<lparr>title := Some (utf16 ''Walk'')\<rparr>)))
       = Some \<lparr>todoId = Some 3, title = Some (utf16 ''Walk''), completed = Some False,
               userId = Some 1, isLocal = None\<rparr>
   \<and> storageUp (sampleWorld True True)
   \<and> fst (createTodo placeholderApi 1700000000001 (emptyObj\<lparr>title := Some (utf16 ''Walk'')\<rparr>)
          (sampleWorld True True))
       = Inr \<lparr>todoId = Some 1700000000001, title = Some (utf16 ''Walk''), completed = Some False,
              userId = Some 1, isLocal = Some True\<rparr>
   \<and> map_of (storage (snd (createTodo placeholderApi 1700000000001
          (emptyObj\<lparr>title := Some (utf16 ''Walk'')\<rparr>) (sampleWorld True True)))) (todoKey 1700000000001)
       = Some \<lparr>todoId = Some 1700000000001, title = Some (utf16 ''Walk''), completed = Some False,
              userId = Some 1, isLocal = Some True\<rparr>"
proof -
  let ?d = "emptyObj\<lparr>title := Some (utf16 ''Walk'')\<rparr>"
  have h1: "fst (post_todo placeholderApi (server (sampleWorld False True)) (createRequest ?d)) = None"
    by (simp add: placeholder_post)
  have h2: "fst (post_todo placeholderApi (server (sampleWorld True True)) (createRequest ?d))
       = Some \<lparr>todoId = Some 3, title = Some (utf16 ''Walk''), completed = Some False,
               userId = Some 1, isLocal = None\<rparr>"
    by (simp add: placeholder_post createRequest_def emptyObj_def)
  have h3: "storageUp (sampleWorld True True)" by simp
  from create_remote_first[where a = placeholderApi and w = "sampleWorld False True" and d = "?d" and now = 1700000000001] h1
  have a: "fst (createTodo placeholderApi 1700000000001 ?d (sampleWorld False True))
      = Inl (Error ''Failed to create todo'')"
    by blast
  from create_remote_first[where a = placeholderApi and w = "sampleWorld True True" and d = "?d" and now = 1700000000001] h2 h3
  have b: "fst (createTodo placeholderApi 1700000000001 ?d (sampleWorld True True))
       = Inr \<lparr>todoId = Some 1700000000001, title = Some (utf16 ''Walk''), completed = Some False,
              userId = Some 1, isLocal = Some True\<rparr>"
    "map_of (storage (snd (createTodo placeholderApi 1700000000001 ?d (sampleWorld True True))))
        (todoKey 1700000000001)
       = Some \<lparr>todoId = Some 1700000000001, title = Some (utf16 ''Walk''), completed = Some False,
              userId = Some 1, isLocal = Some True\<rparr>"
    by simp_all
  from h1 h2 h3 a b show ?thesis by blast
qed

section \<open>Delete\<close>

lemma delete_filter: "AList.delete k al = filter (\<lambda>kv. fst kv \<noteq> k) al"
  by (induction al) auto

lemma wfStore_keyed:
  assumes "wfStore st" "kv \<in> set st" "prefix ''todo-'' (fst kv)"
  shows "\<exists>j. todoId (snd kv) = Some j \<and> fst kv = todoKey j"
proof -
  from assms have "keyed kv"
    by (auto simp: wfStore_def list_all_iff)
  then show ?thesis
    by (simp add: keyed_def split: option.splits)
qed

lemma listed_after_delete:
  assumes "wfStore st" "storage w = AList.delete (todoKey i) st" "v \<in> set (getLocalTodos w)"
  shows "todoId v \<noteq> Some i"
proof (cases "storageUp w")
  case False
  with assms(3) show ?thesis by (simp add: getLocalTodos_down)
next
  case True
  with assms(2,3) obtain kv where kv: "kv \<in> set st" "fst kv \<noteq> todoKey i"
    "prefix ''todo-'' (fst kv)" "v = snd kv"
    by (auto simp: getLocalTodos_up delete_filter)
  from wfStore_keyed[OF assms(1) kv(1) kv(3)] obtain j where
    "todoId (snd kv) = Some j" "fst kv = todoKey j" by blast
  with kv show ?thesis by auto
qed

text \<open>
  Claim C5, as amended. Delete always sends the remote deletion, and sends it first.
  When it succeeds and the store answers, the entry under the identifier's key is removed
  from local storage; in a well-formed store no task with that identifier is left in the
  local part of any later fetch-all over that storage. When the remote deletion fails,
  delete fails with \<^verbatim>\<open>Failed to delete todo with ID ...\<close> and local storage is
  unchanged.
\<close>

theorem delete_after_remote:
  "server (snd (deleteTodo a i w)) = snd (delete_todo a (server w) i)
   \<and> (fst (delete_todo a (server w) i) \<and> storageUp w \<longrightarrow>
        fst (deleteTodo a i w) = Inr ()
        \<and> storage (snd (deleteTodo a i w)) = filter (\<lambda>kv. fst kv \<noteq> todoKey i) (storage w)
        \<and> map_of (storage (snd (deleteTodo a i w))) (todoKey i) = None
        \<and> (wfStore (storage w) \<longrightarrow>
             (\<forall>b w' xs. storage w' = storage (snd (deleteTodo a i w))
                 \<and> fst (queryFn b w') = Inr xs \<longrightarrow>
               (\<exists>rs. fst (get_todos b (server w')) = Some rs
                  \<and> xs = rs @ getLocalTodos w'
                  \<and> (\<forall>v \<in> set (getLocalTodos w'). todoId v \<noteq> Some i)))))
   \<and> (\<not> fst (delete_todo a (server w) i) \<longrightarrow>
        fst (deleteTodo a i w)
          = Inl (Error (''Failed to delete todo with ID '' @ numToString i))
        \<and> storage (snd (deleteTodo a i w)) = storage w)"
proof (intro conjI impI allI)
  show "server (snd (deleteTodo a i w)) = snd (delete_todo a (server w) i)"
    by (simp add: deleteTodo_cases)
next
  assume h: "fst (delete_todo a (server w) i) \<and> storageUp w"
  then show "fst (deleteTodo a i w) = Inr ()"
    by (simp add: deleteTodo_cases)
  from h show s: "storage (snd (deleteTodo a i w)) = filter (\<lambda>kv. fst kv \<noteq> todoKey i) (storage w)"
    by (simp add: deleteTodo_cases delete_filter)
  from h show "map_of (storage (snd (deleteTodo a i w))) (todoKey i) = None"
    by (simp add: deleteTodo_cases AList.delete_conv')
  fix b w' xs
  assume wf: "wfStore (storage w)"
    and q: "storage w' = storage (snd (deleteTodo a i w)) \<and> fst (queryFn b w') = Inr xs"
  from q obtain rs where rs: "fst (get_todos b (server w')) = Some rs" "xs = rs @ getLocalTodos w'"
    by (auto simp: queryFn_cases split: option.splits)
  from h q have "storage w' = AList.delete (todoKey i) (storage w)"
    by (simp add: deleteTodo_cases)
  then have "\<forall>v \<in> set (getLocalTodos w'). todoId v \<noteq> Some i"
    using listed_after_delete[OF wf] by blast
  with rs show "\<exists>rs. fst (get_todos b (server w')) = Some rs
                  \<and> xs = rs @ getLocalTodos w'
                  \<and> (\<forall>v \<in> set (getLocalTodos w'). todoId v \<noteq> Some i)"
    by blast
next
  assume "\<not> fst (delete_todo a (server w) i)"
  then show "fst (deleteTodo a i w)
          = Inl (Error (''Failed to delete todo with ID '' @ numToString i))"
    "storage (snd (deleteTodo a i w)) = storage w"
    by (simp_all add: deleteTodo_cases)
qed

text \<open>
  Claim C5 as stated fails when the remote deletion fails: the local entry is present
  before the delete and still present, and still listed, after it.
\<close>

theorem delete_offline_counterexample:
  "map_of (storage (sampleWorld False True)) (todoKey 1700000000000)
      = Some (localSample 1700000000000)
   \<and> fst (deleteTodo placeholderApi 1700000000000 (sampleWorld False True))
      = Inl (Error ''Failed to delete todo with ID 1700000000000'')
   \<and> map_of (storage (snd (deleteTodo placeholderApi 1700000000000 (sampleWorld False True))))
        (todoKey 1700000000000) = Some (localSample 1700000000000)
   \<and> getLocalTodos (snd (deleteTodo placeholderApi 1700000000000 (sampleWorld False True)))
      = [localSample 1700000000000]"
  by (simp add: deleteTodo_cases placeholder_delete sampleKey sampleKeys getLocalTodos_up)

lemma wfStore_sample: "wfStore (storage (sampleWorld on up))"
  by (simp add: wfStore_def keyed_def localSample_def sampleKey)

text \<open>
  The theorem with the remote side online (the local task is gone from storage and from
  the next fetch-all) and offline (the request was sent, the delete failed).
\<close>

theorem delete_after_remote_witness:
  "fst (delete_todo placeholderApi (server (sampleWorld True True)) 1700000000000)
   \<and> storageUp (sampleWorld True True)
   \<and> wfStore (storage (sampleWorld True True))
   \<and> fst (deleteTodo placeholderApi 1700000000000 (sampleWorld True True)) = Inr ()
   \<and> storage (snd (deleteTodo placeholderApi 1700000000000 (sampleWorld True True))) = []
   \<and> fst (queryFn placeholderApi (snd (deleteTodo placeholderApi 1700000000000 (sampleWorld True True))))
        = Inr [sample 1, sample 2]
   \<and> \<not> fst (delete_todo placeholderApi (server (sampleWorld False True)) 1700000000000)
   \<and> fst (deleteTodo placeholderApi 1700000000000 (sampleWorld False True))
        = Inl (Error ''Failed to delete todo with ID 1700000000000'')
   \<and> requests (server (snd (deleteTodo placeholderApi 1700000000000 (sampleWorld False True))))
        = [''DELETE /todos/1700000000000'']"
proof -
  let ?on = "sampleWorld True True" and ?off = "sampleWorld False True"
  have h1: "fst (delete_todo placeholderApi (server ?on) 1700000000000) \<and> storageUp ?on"
    by (simp add: placeholder_delete)
  have h2: "\<not> fst (delete_todo placeholderApi (server ?off) 1700000000000)"
    by (simp add: placeholder_delete)
  note on = delete_after_remote[of placeholderApi 1700000000000 ?on]
  note off = delete_after_remote[of placeholderApi 1700000000000 ?off]
  from on h1 have a: "fst (deleteTodo placeholderApi 1700000000000 ?on) = Inr ()"
    and b: "storage (snd (deleteTodo placeholderApi 1700000000000 ?on))
            = filter (\<lambda>kv. fst kv \<noteq> todoKey 1700000000000) (storage ?on)"
    by blast+
  from b have b': "storage (snd (deleteTodo placeholderApi 1700000000000 ?on)) = []"
    by (simp add: sampleKey)
  from on have "server (snd (deleteTodo placeholderApi 1700000000000 ?on))
      = snd (delete_todo placeholderApi (server ?on) 1700000000000)" by blast
  then have "fst (get_todos placeholderApi (server (snd (deleteTodo placeholderApi 1700000000000 ?on))))
      = Some [sample 1, sample 2]"
    by (simp add: placeholder_delete placeholder_get_todos received_def)
  then have c: "fst (queryFn placeholderApi (snd (deleteTodo placeholderApi 1700000000000 ?on)))
        = Inr [sample 1, sample 2]"
    using b' by (simp add: queryFn_cases getLocalTodos_def iterate_def)
  from off h2 have d: "fst (deleteTodo placeholderApi 1700000000000 ?off)
        = Inl (Error ''Failed to delete todo with ID 1700000000000'')"
    by (simp add: sampleKeys)
  from off have "server (snd (deleteTodo placeholderApi 1700000000000 ?off))
      = snd (delete_todo placeholderApi (server ?off) 1700000000000)" by blast
  then have e: "requests (server (snd (deleteTodo placeholderApi 1700000000000 ?off)))
        = [''DELETE /todos/1700000000000'']"
    by (simp add: placeholder_delete received_def sampleWorld_def sampleKeys)
  from h1 h2 wfStore_sample a b' c d e show ?thesis by blast
qed

section \<open>Update\<close>








section \<open>The created task\<close>






section \<open>Unique identifiers\<close>





















end
